theory Spec2Isabelle
  imports Main "HOL-Library.Word"
begin

section \<open>Pedersen VRF verifier (src/src/verifier/pedersen.ts)\<close>

subsection \<open>Data\<close>

text \<open>
  A \<^verbatim>\<open>Uint8Array\<close> is a list of bytes. A JavaScript exception is the message of the
  thrown \<^verbatim>\<open>Error\<close>; a call that may throw returns \<open>exn + 'a\<close>, with \<open>Inl\<close> the
  exception.
\<close>

type_synonym byte = "8 word"
type_synonym bytes = "byte list"
type_synonym exn = string

text \<open>
  \<^verbatim>\<open>PedersenVRFProof\<close>: the five fields \<^verbatim>\<open>{ Y_bar, R, O_k, s, s_b }\<close>, each a byte
  array (the verifier decodes them itself). The fields carry the prefix \<open>pi\<close> of the
  source comment \<^verbatim>\<open>(Y_bar, R, O_k, s, s_b) <- pi\<close>.
\<close>

record PedersenVRFProof =
  pi_Y_bar :: bytes
  pi_R :: bytes
  pi_O_k :: bytes
  pi_s :: bytes
  pi_s_b :: bytes

text \<open>
  What \<^verbatim>\<open>verify\<close> can throw: its own size error, which carries the length it found,
  or an exception of a callee that it does not catch.
\<close>

datatype error = InvalidProofSize nat | Thrown exn

text \<open>
  The console. \<^verbatim>\<open>console.error\<close> and \<^verbatim>\<open>console.debug\<close> append an entry; the
  second argument of the call is the entry's details. The challenge is logged as
  \<^verbatim>\<open>c.toString(16)\<close>, a rendering of the integer kept here.
\<close>

datatype details =
  NoDetails
  | VerificationDetails bool bool bool int
  | ErrorDetails exn

datatype log_entry = ConsoleError string details | ConsoleDebug string details

type_synonym console = "log_entry list"

subsection \<open>Imported code\<close>

text \<open>
  The verifier imports everything it computes with: the curve adapter
  \<^verbatim>\<open>BandersnatchCurve\<close>, \<^verbatim>\<open>Bandersnatch\<close> and the table \<^verbatim>\<open>BANDERSNATCH_PARAMS\<close> of
  the package \<^verbatim>\<open>@pbnjam/bandersnatch\<close>, the helpers of \<^verbatim>\<open>../crypto/elligator2\<close>, and
  \<^verbatim>\<open>PedersenVRFProver\<close> of \<^verbatim>\<open>../prover/pedersen\<close>. The verifier's file defines none
  of them, so the verifier is modelled over a record of them, and what is proved of it
  holds whatever they compute. Every call may throw. \<open>'p\<close> is the adapter's point
  type (\<^verbatim>\<open>EdwardsPoint\<close>), \<open>'cp\<close> the \<^verbatim>\<open>CurvePoint\<close> of the hash-to-curve helper;
  \<^verbatim>\<open>bigint\<close> is \<open>int\<close>.
\<close>

record ('p, 'cp) collaborators =
  bytesToPoint :: "bytes \<Rightarrow> exn + 'p"
  pointToBytes :: "'p \<Rightarrow> exn + bytes"
  scalarMultiply :: "'p \<Rightarrow> int \<Rightarrow> exn + 'p"
  add :: "'p \<Rightarrow> 'p \<Rightarrow> exn + 'p"
  equals :: "'p \<Rightarrow> 'p \<Rightarrow> exn + bool"
  fromAffine :: "int \<times> int \<Rightarrow> exn + 'p"
  GENERATOR :: "int \<times> int"
  BLINDING_BASE :: "int \<times> int"
  bytesToBigIntLittleEndian :: "bytes \<Rightarrow> exn + int"
  curvePointToNoble :: "'cp \<Rightarrow> exn + 'p"
  elligator2HashToCurve :: "bytes \<Rightarrow> exn + 'cp"
  deserialize :: "bytes \<Rightarrow> exn + PedersenVRFProof"
  generateChallenge :: "bytes \<Rightarrow> bytes \<Rightarrow> bytes \<Rightarrow> bytes \<Rightarrow> bytes \<Rightarrow> bytes \<Rightarrow> exn + int"

text \<open>Sequencing of calls that may throw: the first exception ends the computation.\<close>

definition bind_exn :: "exn + 'a \<Rightarrow> ('a \<Rightarrow> exn + 'b) \<Rightarrow> exn + 'b" where
  "bind_exn m f = (case m of Inl e \<Rightarrow> Inl e | Inr x \<Rightarrow> f x)"

subsection \<open>The verifier\<close>

text \<open>
  \<^verbatim>\<open>hashToCurve(message)\<close>:
  \<^verbatim>\<open>BandersnatchCurve.pointToBytes(curvePointToNoble(elligator2HashToCurve(message)))\<close>.
\<close>

definition hashToCurve :: "('p, 'cp) collaborators \<Rightarrow> bytes \<Rightarrow> exn + bytes" where
  "hashToCurve env message =
     bind_exn (elligator2HashToCurve env message) (\<lambda>point.
     bind_exn (curvePointToNoble env point) (\<lambda>noble.
     pointToBytes env noble))"

text \<open>\<^verbatim>\<open>getBlindingBase()\<close>: \<^verbatim>\<open>Bandersnatch.fromAffine\<close> of the table's blinding base.\<close>

definition getBlindingBase :: "('p, 'cp) collaborators \<Rightarrow> exn + 'p" where
  "getBlindingBase env = fromAffine env (BLINDING_BASE env)"

text \<open>\<^verbatim>\<open>auxData || new Uint8Array(0)\<close>: an array is truthy, \<^verbatim>\<open>undefined\<close> is not.\<close>

definition orEmpty :: "bytes option \<Rightarrow> bytes" where
  "orEmpty auxData = (case auxData of None \<Rightarrow> [] | Some a \<Rightarrow> a)"

text \<open>
  The body of the \<^verbatim>\<open>try\<close> block of \<^verbatim>\<open>verifyProof\<close>, in the order of the source. It
  either throws, leaving the console as it was, or logs the details and returns
  \<^verbatim>\<open>theta0 && theta1\<close>.
\<close>

definition verifyProof_try ::
  "('p, 'cp) collaborators \<Rightarrow> bytes \<Rightarrow> bytes \<Rightarrow> PedersenVRFProof \<Rightarrow> bytes option \<Rightarrow> console
     \<Rightarrow> (exn + bool) \<times> console" where
  "verifyProof_try env I O' pp auxData con =
     (case
        bind_exn (bytesToPoint env I) (\<lambda>IPoint.
        bind_exn (bytesToPoint env O') (\<lambda>OPoint.
        bind_exn (bytesToPoint env (pi_Y_bar pp)) (\<lambda>Y_barPoint.
        bind_exn (bytesToPoint env (pi_R pp)) (\<lambda>RPoint.
        bind_exn (bytesToPoint env (pi_O_k pp)) (\<lambda>O_kPoint.
        bind_exn (bytesToBigIntLittleEndian env (pi_s pp)) (\<lambda>sScalar.
        bind_exn (bytesToBigIntLittleEndian env (pi_s_b pp)) (\<lambda>s_bScalar.
        bind_exn (generateChallenge env (pi_Y_bar pp) I O' (pi_R pp) (pi_O_k pp)
                    (orEmpty auxData)) (\<lambda>c.
        bind_exn (scalarMultiply env OPoint c) (\<lambda>cO.
        bind_exn (add env O_kPoint cO) (\<lambda>leftSide.
        bind_exn (scalarMultiply env IPoint sScalar) (\<lambda>rightSide.
        bind_exn (equals env leftSide rightSide) (\<lambda>theta0.
        bind_exn (scalarMultiply env Y_barPoint c) (\<lambda>cY_bar.
        bind_exn (add env RPoint cY_bar) (\<lambda>leftSideKey.
        bind_exn (fromAffine env (GENERATOR env)) (\<lambda>G.
        bind_exn (getBlindingBase env) (\<lambda>B.
        bind_exn (scalarMultiply env G sScalar) (\<lambda>sG.
        bind_exn (scalarMultiply env B s_bScalar) (\<lambda>s_bB.
        bind_exn (add env sG s_bB) (\<lambda>rightSideKey.
        bind_exn (equals env leftSideKey rightSideKey) (\<lambda>theta1.
        Inr (theta0, theta1, c)))))))))))))))))))))
      of
        Inl e \<Rightarrow> (Inl e, con)
      | Inr (theta0, theta1, c) \<Rightarrow>
          (let isValid = theta0 \<and> theta1
           in (Inr isValid,
               con @ [ConsoleDebug ''Pedersen VRF verification details''
                        (VerificationDetails theta0 theta1 isValid c)])))"

text \<open>
  \<^verbatim>\<open>verifyProof\<close>: the \<^verbatim>\<open>try\<close> block and its \<^verbatim>\<open>catch\<close>, which logs the exception and
  returns \<^verbatim>\<open>false\<close>. Like every call it has the type of a call that may throw.
\<close>

definition verifyProof ::
  "('p, 'cp) collaborators \<Rightarrow> bytes \<Rightarrow> bytes \<Rightarrow> PedersenVRFProof \<Rightarrow> bytes option \<Rightarrow> console
     \<Rightarrow> (exn + bool) \<times> console" where
  "verifyProof env I O' pp auxData con =
     (case verifyProof_try env I O' pp auxData con of
        (Inl e, con1) \<Rightarrow>
          (Inr False,
           con1 @ [ConsoleError ''Pedersen VRF proof verification with provided gamma failed''
                     (ErrorDetails e)])
      | (Inr isValid, con1) \<Rightarrow> (Inr isValid, con1))"

text \<open>
  \<^verbatim>\<open>verify(input, gamma, proof, auxData?)\<close>: the size check, then
  \<^verbatim>\<open>PedersenVRFProver.deserialize\<close>, \<^verbatim>\<open>hashToCurve\<close> and \<^verbatim>\<open>verifyProof\<close>, none of them
  inside a \<^verbatim>\<open>try\<close>, then one console entry and the result.
\<close>

definition verify ::
  "('p, 'cp) collaborators \<Rightarrow> bytes \<Rightarrow> bytes \<Rightarrow> bytes \<Rightarrow> bytes option \<Rightarrow> console
     \<Rightarrow> (error + bool) \<times> console" where
  "verify env input gamma proofBytes auxData con =
     (if length proofBytes \<noteq> 160 then (Inl (InvalidProofSize (length proofBytes)), con)
      else
        (case deserialize env proofBytes of
           Inl e \<Rightarrow> (Inl (Thrown e), con)
         | Inr pedersenProof \<Rightarrow>
             (case hashToCurve env input of
                Inl e \<Rightarrow> (Inl (Thrown e), con)
              | Inr I \<Rightarrow>
                  (case verifyProof env I gamma pedersenProof auxData con of
                     (Inl e, con1) \<Rightarrow> (Inl (Thrown e), con1)
                   | (Inr isValid, con1) \<Rightarrow>
                       (Inr isValid,
                        con1 @ [if \<not> isValid
                                then ConsoleError ''Pedersen VRF proof verification failed''
                                       NoDetails
                                else ConsoleDebug ''Pedersen VRF proof verified successfully''
                                       NoDetails])))))"

subsection \<open>The equations of the specification\<close>

text \<open>
  \<open>theta0\<close>: \<open>O_k + c * Gamma == I * s\<close>, and \<open>theta1\<close>:
  \<open>R + c * Y_bar == s * G + s_b * B\<close>, written with the adapter's operations on decoded
  points. An equation holds when each operation returns and \<^verbatim>\<open>equals\<close> answers
  \<^verbatim>\<open>true\<close>.
\<close>

definition theta0_holds ::
  "('p, 'cp) collaborators \<Rightarrow> 'p \<Rightarrow> int \<Rightarrow> 'p \<Rightarrow> 'p \<Rightarrow> int \<Rightarrow> bool" where
  "theta0_holds env O_kPoint c GammaPoint IPoint s \<longleftrightarrow>
     bind_exn (scalarMultiply env GammaPoint c) (\<lambda>cGamma.
     bind_exn (add env O_kPoint cGamma) (\<lambda>lhs.
     bind_exn (scalarMultiply env IPoint s) (\<lambda>rhs.
     equals env lhs rhs))) = Inr True"

definition theta1_holds ::
  "('p, 'cp) collaborators \<Rightarrow> 'p \<Rightarrow> int \<Rightarrow> 'p \<Rightarrow> int \<Rightarrow> 'p \<Rightarrow> int \<Rightarrow> 'p \<Rightarrow> bool" where
  "theta1_holds env RPoint c Y_barPoint s G s_b B \<longleftrightarrow>
     bind_exn (scalarMultiply env Y_barPoint c) (\<lambda>cY_bar.
     bind_exn (add env RPoint cY_bar) (\<lambda>lhs.
     bind_exn (scalarMultiply env G s) (\<lambda>sG.
     bind_exn (scalarMultiply env B s_b) (\<lambda>s_bB.
     bind_exn (add env sG s_bB) (\<lambda>rhs.
     equals env lhs rhs))))) = Inr True"

subsection \<open>The imported code as the specification describes it\<close>

text \<open>
  Modelled from the spec: the little-endian reading of a byte array ("compressed curve
  points and scalars are both 32 bytes, little-endian"), and its inverse on a fixed
  number of bytes.
\<close>

fun int_of_le :: "bytes \<Rightarrow> int" where
  "int_of_le [] = 0"
| "int_of_le (b # bs) = uint b + 256 * int_of_le bs"

fun le_of_int :: "nat \<Rightarrow> int \<Rightarrow> bytes" where
  "le_of_int 0 n = []"
| "le_of_int (Suc k) n = word_of_int n # le_of_int k (n div 256)"

text \<open>
  Modelled from the spec: the scalar decoding \<^verbatim>\<open>bytesToBigIntLittleEndian\<close> of
  \<^verbatim>\<open>../crypto/elligator2\<close>. A scalar has a "canonical little-endian 32-byte encoding"
  and is "invalid if \<open>\<ge>\<close> order (reject, do not silently wrap)"; "scalar bytes \<open>\<ge>\<close>
  curve order" are an error. The order belongs to the curve parameters and is an
  argument here.
\<close>

definition decodeScalar_spec :: "int \<Rightarrow> bytes \<Rightarrow> exn + int" where
  "decodeScalar_spec order b =
     (if order \<le> int_of_le b then Inl ''scalar out of range'' else Inr (int_of_le b))"


text \<open>
  Modelled from the spec: the table \<^verbatim>\<open>BANDERSNATCH_PARAMS\<close> of \<^verbatim>\<open>@pbnjam/bandersnatch\<close>.
  The blinding base is "a second, independent base point (the "blinding base"),
  distinct from the generator \<open>G\<close>, fixed by the curve parameters": the point made from
  the table's blinding base is not the point made from the table's generator.
\<close>

definition blinding_base_distinct :: "('p, 'cp) collaborators \<Rightarrow> bool" where
  "blinding_base_distinct env \<longleftrightarrow>
     fromAffine env (BLINDING_BASE env) \<noteq> fromAffine env (GENERATOR env)"

text \<open>
  Modelled from the spec: \<^verbatim>\<open>PedersenVRFProver.deserialize\<close> of \<^verbatim>\<open>../prover/pedersen\<close>,
  "five fixed 32-byte fields in the order \<open>Y_bar, R, O_k, s, s_b\<close>".
\<close>

definition deserialize_spec :: "bytes \<Rightarrow> PedersenVRFProof" where
  "deserialize_spec b =
     \<lparr>pi_Y_bar = take 32 b, pi_R = take 32 (drop 32 b), pi_O_k = take 32 (drop 64 b),
      pi_s = take 32 (drop 96 b), pi_s_b = take 32 (drop 128 b)\<rparr>"

subsection \<open>An instance of the imported code\<close>

text \<open>
  A small instance on which the verifier can be evaluated: the integers modulo the
  prime 13 under addition stand for the curve's prime-order group, with identity 0,
  generator 1 and blinding base 2. A point is encoded as its 32-byte little-endian
  numeral and decoded only when that numeral is below 13; scalar multiplication is the
  group's; the challenge reads the concatenated transcript as a numeral and reduces it;
  scalars and proofs are decoded as the specification describes.
\<close>

definition demo_order :: int where
  "demo_order = 13"

definition demo :: "(int, int) collaborators" where
  "demo =
     \<lparr>bytesToPoint = (\<lambda>b. if length b = 32 \<and> int_of_le b < demo_order then Inr (int_of_le b)
                          else Inl ''invalid point encoding''),
      pointToBytes = (\<lambda>p. Inr (le_of_int 32 p)),
      scalarMultiply = (\<lambda>p k. Inr ((k * p) mod demo_order)),
      add = (\<lambda>p q. Inr ((p + q) mod demo_order)),
      equals = (\<lambda>p q. Inr (p = q)),
      fromAffine = (\<lambda>(x, y). Inr (x mod demo_order)),
      GENERATOR = (1, 0),
      BLINDING_BASE = (2, 0),
      bytesToBigIntLittleEndian = decodeScalar_spec demo_order,
      curvePointToNoble = Inr,
      elligator2HashToCurve = (\<lambda>m. Inr (1 + int_of_le m mod (demo_order - 1))),
      deserialize = (\<lambda>b. Inr (deserialize_spec b)),
      generateChallenge =
        (\<lambda>Y I O' R Ok ad. Inr (int_of_le (Y @ I @ O' @ R @ Ok @ ad) mod demo_order))\<rparr>"


text \<open>
  A proof for the input \<^verbatim>\<open>"test"\<close> in the instance: secret key 5, blinding factor 3,
  nonces 7 and 4. Then \<open>I = 5\<close>, \<open>Gamma = 12\<close>, \<open>Y_bar = 11\<close>, \<open>R = 2\<close>, \<open>O_k = 9\<close>,
  the challenge is 7, \<open>s = 3\<close> and \<open>s_b = 12\<close>.
\<close>

definition demo_input :: bytes where
  "demo_input = [116, 101, 115, 116]"

definition demo_gamma :: bytes where
  "demo_gamma = le_of_int 32 12"

definition demo_proof :: bytes where
  "demo_proof =
     le_of_int 32 11 @ le_of_int 32 2 @ le_of_int 32 9 @ le_of_int 32 3 @ le_of_int 32 12"

text \<open>
  A proof for the same input, key and nonces with the auxiliary data \<open>[1, 2, 3]\<close>:
  the challenge is 12, \<open>s = 2\<close> and \<open>s_b = 1\<close>.
\<close>

definition demo_aux :: bytes where
  "demo_aux = [1, 2, 3]"

definition demo_proof_aux :: bytes where
  "demo_proof_aux =
     le_of_int 32 11 @ le_of_int 32 2 @ le_of_int 32 9 @ le_of_int 32 2 @ le_of_int 32 1"


section \<open>Properties\<close>

subsection \<open>Auxiliary facts\<close>

lemma bind_exn_Inr_iff: "bind_exn m f = Inr v \<longleftrightarrow> (\<exists>x. m = Inr x \<and> f x = Inr v)"
  by (cases m) (simp_all add: bind_exn_def)

lemma bind_exn_Inr [simp]: "bind_exn (Inr x) f = f x"
  by (simp add: bind_exn_def)

lemma bind_exn_Inl [simp]: "bind_exn (Inl e) f = Inl e"
  by (simp add: bind_exn_def)

text \<open>When the \<^verbatim>\<open>try\<close> block returns \<^verbatim>\<open>true\<close>.\<close>

lemma verifyProof_try_accepts_iff:
  "fst (verifyProof_try env I O' pp auxData con) = Inr True \<longleftrightarrow>
     (\<exists>IPoint OPoint Y_barPoint RPoint O_kPoint sScalar s_bScalar c G B.
        bytesToPoint env I = Inr IPoint \<and>
        bytesToPoint env O' = Inr OPoint \<and>
        bytesToPoint env (pi_Y_bar pp) = Inr Y_barPoint \<and>
        bytesToPoint env (pi_R pp) = Inr RPoint \<and>
        bytesToPoint env (pi_O_k pp) = Inr O_kPoint \<and>
        bytesToBigIntLittleEndian env (pi_s pp) = Inr sScalar \<and>
        bytesToBigIntLittleEndian env (pi_s_b pp) = Inr s_bScalar \<and>
        generateChallenge env (pi_Y_bar pp) I O' (pi_R pp) (pi_O_k pp) (orEmpty auxData)
          = Inr c \<and>
        fromAffine env (GENERATOR env) = Inr G \<and>
        fromAffine env (BLINDING_BASE env) = Inr B \<and>
        theta0_holds env O_kPoint c OPoint IPoint sScalar \<and>
        theta1_holds env RPoint c Y_barPoint sScalar G s_bScalar B)"
  (is "?L \<longleftrightarrow> ?R")
proof
  assume ?L
  then show ?R
    unfolding verifyProof_try_def theta0_holds_def theta1_holds_def getBlindingBase_def
    by (auto simp: Let_def bind_exn_Inr_iff split: sum.splits prod.splits)
next
  assume ?R
  then show ?L
    unfolding verifyProof_try_def theta0_holds_def theta1_holds_def getBlindingBase_def
    by (auto simp: Let_def bind_exn_Inr_iff split: sum.splits prod.splits)
qed

text \<open>The \<^verbatim>\<open>catch\<close> turns an exception of the \<^verbatim>\<open>try\<close> block into \<^verbatim>\<open>false\<close>.\<close>

lemma fst_verifyProof:
  "fst (verifyProof env I O' pp auxData con) =
     (case fst (verifyProof_try env I O' pp auxData con) of
        Inl e \<Rightarrow> Inr False
      | Inr isValid \<Rightarrow> Inr isValid)"
  by (simp add: verifyProof_def split: prod.splits sum.splits)

text \<open>The result of \<^verbatim>\<open>verify\<close> on a proof of 160 bytes, step by step.\<close>

lemma fst_verify:
  "fst (verify env input gamma proofBytes auxData con) =
     (if length proofBytes \<noteq> 160 then Inl (InvalidProofSize (length proofBytes))
      else
        (case deserialize env proofBytes of
           Inl e \<Rightarrow> Inl (Thrown e)
         | Inr pedersenProof \<Rightarrow>
             (case hashToCurve env input of
                Inl e \<Rightarrow> Inl (Thrown e)
              | Inr I \<Rightarrow>
                  (case fst (verifyProof env I gamma pedersenProof auxData con) of
                     Inl e \<Rightarrow> Inl (Thrown e)
                   | Inr isValid \<Rightarrow> Inr isValid))))"
  by (simp add: verify_def split: prod.splits sum.splits)

lemma verify_accepts_iff:
  "fst (verify env input gamma proofBytes auxData con) = Inr True \<longleftrightarrow>
     length proofBytes = 160 \<and>
     (\<exists>pp I. deserialize env proofBytes = Inr pp \<and> hashToCurve env input = Inr I \<and>
        fst (verifyProof_try env I gamma pp auxData con) = Inr True)"
  by (auto simp: fst_verify fst_verifyProof split: sum.splits)

text \<open>
  When the \<^verbatim>\<open>try\<close> block returns at all, every decoding and every scalar
  multiplication by a response scalar has returned.
\<close>

lemma verifyProof_try_returns:
  assumes "fst (verifyProof_try env I O' pp auxData con) = Inr b"
  shows "\<exists>IPoint OPoint Y_barPoint RPoint O_kPoint sScalar s_bScalar B rightSide s_bB.
           bytesToPoint env I = Inr IPoint \<and>
           bytesToPoint env O' = Inr OPoint \<and>
           bytesToPoint env (pi_Y_bar pp) = Inr Y_barPoint \<and>
           bytesToPoint env (pi_R pp) = Inr RPoint \<and>
           bytesToPoint env (pi_O_k pp) = Inr O_kPoint \<and>
           bytesToBigIntLittleEndian env (pi_s pp) = Inr sScalar \<and>
           bytesToBigIntLittleEndian env (pi_s_b pp) = Inr s_bScalar \<and>
           scalarMultiply env IPoint sScalar = Inr rightSide \<and>
           fromAffine env (BLINDING_BASE env) = Inr B \<and>
           scalarMultiply env B s_bScalar = Inr s_bB"
  using assms
  unfolding verifyProof_try_def getBlindingBase_def
  by (auto simp: Let_def bind_exn_Inr_iff split: sum.splits prod.splits)

text \<open>\<^verbatim>\<open>verifyProof\<close> does not throw.\<close>

lemma verifyProof_never_throws:
  "fst (verifyProof env I O' pp auxData con) \<noteq> Inl e"
  by (simp add: fst_verifyProof split: sum.splits)

text \<open>\<^verbatim>\<open>verify\<close> once the proof is deserialised and the input hashed.\<close>

lemma fst_verify_160:
  assumes "length proofBytes = 160" "deserialize env proofBytes = Inr pp"
    "hashToCurve env input = Inr I"
  shows "fst (verify env input gamma proofBytes auxData con) =
           (case fst (verifyProof_try env I gamma pp auxData con) of
              Inl e \<Rightarrow> Inr False | Inr isValid \<Rightarrow> Inr isValid)"
  using assms by (simp add: fst_verify fst_verifyProof split: sum.splits)

lemma length_le_of_int [simp]: "length (le_of_int k n) = k"
  by (induction k arbitrary: n) simp_all

text \<open>
  The console is only appended to: a call's result and the entries it writes do not
  depend on what the console holds.
\<close>

lemma verifyProof_try_console:
  "verifyProof_try env I O' pp auxData con =
     (fst (verifyProof_try env I O' pp auxData []),
      con @ snd (verifyProof_try env I O' pp auxData []))"
  unfolding verifyProof_try_def
  by (simp add: Let_def split: sum.splits prod.splits)

lemma verifyProof_console:
  "verifyProof env I O' pp auxData con =
     (fst (verifyProof env I O' pp auxData []),
      con @ snd (verifyProof env I O' pp auxData []))"
  unfolding verifyProof_def
  by (subst verifyProof_try_console) (simp split: sum.splits prod.splits)

lemma verify_console:
  "verify env input gamma proofBytes auxData con =
     (fst (verify env input gamma proofBytes auxData []),
      con @ snd (verify env input gamma proofBytes auxData []))"
  unfolding verify_def
  by (subst verifyProof_console) (simp split: sum.splits prod.splits)

text \<open>What \<^verbatim>\<open>verifyProof\<close> writes to the console: one entry.\<close>

lemma snd_verifyProof:
  "\<exists>d. snd (verifyProof env I O' pp auxData []) = [d] \<and>
       (case d of
          ConsoleDebug m x \<Rightarrow> m = ''Pedersen VRF verification details''
        | ConsoleError m x \<Rightarrow>
            m = ''Pedersen VRF proof verification with provided gamma failed'')"
  unfolding verifyProof_def verifyProof_try_def
  by (simp add: Let_def split: sum.splits prod.splits)

subsection \<open>What an accepted proof satisfies\<close>

text \<open>
  C1. \<^verbatim>\<open>verify\<close> accepts only if the output-commitment equation \<open>theta0\<close> holds:
  the proof deserialises, \<open>I\<close> is \<^verbatim>\<open>hashToCurve(input)\<close>, the points \<open>I\<close>, \<open>Gamma\<close> and
  \<open>O_k\<close> decode, \<open>s\<close> is decoded from the proof's field \<open>s\<close>, \<open>c\<close> is the recomputed
  challenge, and \<open>O_k + c * Gamma\<close> equals \<open>s * I\<close>.
\<close>

theorem verify_accepts_theta0:
  assumes "fst (verify env input gamma proofBytes auxData con) = Inr True"
  shows "\<exists>pp I IPoint GammaPoint O_kPoint s c.
           deserialize env proofBytes = Inr pp \<and>
           hashToCurve env input = Inr I \<and>
           bytesToPoint env I = Inr IPoint \<and>
           bytesToPoint env gamma = Inr GammaPoint \<and>
           bytesToPoint env (pi_O_k pp) = Inr O_kPoint \<and>
           bytesToBigIntLittleEndian env (pi_s pp) = Inr s \<and>
           generateChallenge env (pi_Y_bar pp) I gamma (pi_R pp) (pi_O_k pp)
             (orEmpty auxData) = Inr c \<and>
           theta0_holds env O_kPoint c GammaPoint IPoint s"
proof -
  from assms obtain pp I where
    d: "deserialize env proofBytes = Inr pp" and h: "hashToCurve env input = Inr I" and
    t: "fst (verifyProof_try env I gamma pp auxData con) = Inr True"
    unfolding verify_accepts_iff by blast
  from t d h show ?thesis
    unfolding verifyProof_try_accepts_iff by blast
qed

theorem verify_accepts_theta0_witness:
  "fst (verify demo demo_input demo_gamma demo_proof None []) = Inr True \<and>
   (\<exists>pp I IPoint GammaPoint O_kPoint s c.
      deserialize demo demo_proof = Inr pp \<and>
      hashToCurve demo demo_input = Inr I \<and>
      bytesToPoint demo I = Inr IPoint \<and>
      bytesToPoint demo demo_gamma = Inr GammaPoint \<and>
      bytesToPoint demo (pi_O_k pp) = Inr O_kPoint \<and>
      bytesToBigIntLittleEndian demo (pi_s pp) = Inr s \<and>
      generateChallenge demo (pi_Y_bar pp) I demo_gamma (pi_R pp) (pi_O_k pp)
        (orEmpty None) = Inr c \<and>
      theta0_holds demo O_kPoint c GammaPoint IPoint s)"
proof -
  have accepted: "fst (verify demo demo_input demo_gamma demo_proof None []) = Inr True"
    by code_simp
  from verify_accepts_theta0 [OF accepted] accepted show ?thesis
    by blast
qed

text \<open>
  C2. \<^verbatim>\<open>verify\<close> accepts only if the key-commitment equation \<open>theta1\<close> holds:
  \<open>R + c * Y_bar\<close> equals \<open>s * G + s_b * B\<close>, where \<open>G\<close> is made from the table's
  generator, \<open>B\<close> from the table's blinding base, \<open>B\<close> is not \<open>G\<close> when the table is
  as the specification describes it, and \<open>s\<close>, \<open>s_b\<close> are decoded from the proof's two
  scalar fields.
\<close>

theorem verify_accepts_theta1_distinct_bases:
  assumes "fst (verify env input gamma proofBytes auxData con) = Inr True"
    and "blinding_base_distinct env"
  shows "\<exists>pp I RPoint Y_barPoint s s_b c G B.
           deserialize env proofBytes = Inr pp \<and>
           hashToCurve env input = Inr I \<and>
           bytesToPoint env (pi_R pp) = Inr RPoint \<and>
           bytesToPoint env (pi_Y_bar pp) = Inr Y_barPoint \<and>
           bytesToBigIntLittleEndian env (pi_s pp) = Inr s \<and>
           bytesToBigIntLittleEndian env (pi_s_b pp) = Inr s_b \<and>
           generateChallenge env (pi_Y_bar pp) I gamma (pi_R pp) (pi_O_k pp)
             (case auxData of None \<Rightarrow> [] | Some aux \<Rightarrow> aux) = Inr c \<and>
           fromAffine env (GENERATOR env) = Inr G \<and>
           fromAffine env (BLINDING_BASE env) = Inr B \<and>
           B \<noteq> G \<and>
           theta1_holds env RPoint c Y_barPoint s G s_b B"
proof -
  from assms(1) obtain pp I where
    d: "deserialize env proofBytes = Inr pp" and h: "hashToCurve env input = Inr I" and
    t: "fst (verifyProof_try env I gamma pp auxData con) = Inr True"
    unfolding verify_accepts_iff by blast
  from t obtain RPoint Y_barPoint s s_b c G B where
    r: "bytesToPoint env (pi_R pp) = Inr RPoint" and
    y: "bytesToPoint env (pi_Y_bar pp) = Inr Y_barPoint" and
    s: "bytesToBigIntLittleEndian env (pi_s pp) = Inr s" and
    s_b: "bytesToBigIntLittleEndian env (pi_s_b pp) = Inr s_b" and
    c: "generateChallenge env (pi_Y_bar pp) I gamma (pi_R pp) (pi_O_k pp) (orEmpty auxData)
          = Inr c" and
    g: "fromAffine env (GENERATOR env) = Inr G" and
    b: "fromAffine env (BLINDING_BASE env) = Inr B" and
    th: "theta1_holds env RPoint c Y_barPoint s G s_b B"
    unfolding verifyProof_try_accepts_iff by blast
  from assms(2) g b have "B \<noteq> G"
    by (auto simp: blinding_base_distinct_def)
  with d h r y s s_b c g b th show ?thesis
    unfolding orEmpty_def by blast
qed

theorem verify_accepts_theta1_distinct_bases_witness:
  "fst (verify demo demo_input demo_gamma demo_proof_aux (Some demo_aux) []) = Inr True \<and>
   fromAffine demo (BLINDING_BASE demo) \<noteq> fromAffine demo (GENERATOR demo) \<and>
   (\<exists>pp I RPoint Y_barPoint s s_b c G B.
      deserialize demo demo_proof_aux = Inr pp \<and>
      hashToCurve demo demo_input = Inr I \<and>
      bytesToPoint demo (pi_R pp) = Inr RPoint \<and>
      bytesToPoint demo (pi_Y_bar pp) = Inr Y_barPoint \<and>
      bytesToBigIntLittleEndian demo (pi_s pp) = Inr s \<and>
      bytesToBigIntLittleEndian demo (pi_s_b pp) = Inr s_b \<and>
      generateChallenge demo (pi_Y_bar pp) I demo_gamma (pi_R pp) (pi_O_k pp) demo_aux
        = Inr c \<and>
      fromAffine demo (GENERATOR demo) = Inr G \<and>
      fromAffine demo (BLINDING_BASE demo) = Inr B \<and>
      B \<noteq> G \<and>
      theta1_holds demo RPoint c Y_barPoint s G s_b B)"
proof -
  have accepted:
    "fst (verify demo demo_input demo_gamma demo_proof_aux (Some demo_aux) []) = Inr True"
    by code_simp
  have distinct: "fromAffine demo (BLINDING_BASE demo) \<noteq> fromAffine demo (GENERATOR demo)"
    by (simp add: demo_def demo_order_def)
  then have "blinding_base_distinct demo"
    by (simp add: blinding_base_distinct_def)
  from verify_accepts_theta1_distinct_bases [OF accepted this] accepted distinct
  show ?thesis
    by simp
qed

text \<open>
  C3. The challenge \<open>c\<close> is the value of the challenge generator on the ordered
  tuple \<open>(Y_bar, I, Gamma, R, O_k)\<close> and \<^verbatim>\<open>auxData\<close> itself (the empty array only
  when it is omitted), and \<^verbatim>\<open>verify\<close> returns \<^verbatim>\<open>true\<close> if and only if the proof has
  160 bytes, everything decodes, and both \<open>theta0\<close> and \<open>theta1\<close> hold for that \<open>c\<close>.
\<close>

theorem verify_accepts_iff_challenge_theta0_theta1:
  "fst (verify env input gamma proofBytes auxData con) = Inr True \<longleftrightarrow>
     length proofBytes = 160 \<and>
     (\<exists>pp I IPoint GammaPoint Y_barPoint RPoint O_kPoint s s_b c G B.
        deserialize env proofBytes = Inr pp \<and>
        hashToCurve env input = Inr I \<and>
        bytesToPoint env I = Inr IPoint \<and>
        bytesToPoint env gamma = Inr GammaPoint \<and>
        bytesToPoint env (pi_Y_bar pp) = Inr Y_barPoint \<and>
        bytesToPoint env (pi_R pp) = Inr RPoint \<and>
        bytesToPoint env (pi_O_k pp) = Inr O_kPoint \<and>
        bytesToBigIntLittleEndian env (pi_s pp) = Inr s \<and>
        bytesToBigIntLittleEndian env (pi_s_b pp) = Inr s_b \<and>
        generateChallenge env (pi_Y_bar pp) I gamma (pi_R pp) (pi_O_k pp)
          (case auxData of None \<Rightarrow> [] | Some aux \<Rightarrow> aux) = Inr c \<and>
        fromAffine env (GENERATOR env) = Inr G \<and>
        fromAffine env (BLINDING_BASE env) = Inr B \<and>
        theta0_holds env O_kPoint c GammaPoint IPoint s \<and>
        theta1_holds env RPoint c Y_barPoint s G s_b B)"
  unfolding verify_accepts_iff verifyProof_try_accepts_iff orEmpty_def by blast

theorem verify_accepts_iff_challenge_theta0_theta1_witness:
  "fst (verify demo demo_input demo_gamma demo_proof_aux (Some demo_aux) []) = Inr True \<and>
   fst (verify demo demo_input demo_gamma demo_proof_aux None []) = Inr False \<and>
   fst (verify demo demo_input demo_gamma demo_proof (Some demo_aux) []) = Inr False \<and>
   length demo_proof_aux = 160 \<and>
   (\<exists>pp I IPoint GammaPoint Y_barPoint RPoint O_kPoint s s_b c G B.
        deserialize demo demo_proof_aux = Inr pp \<and>
        hashToCurve demo demo_input = Inr I \<and>
        bytesToPoint demo I = Inr IPoint \<and>
        bytesToPoint demo demo_gamma = Inr GammaPoint \<and>
        bytesToPoint demo (pi_Y_bar pp) = Inr Y_barPoint \<and>
        bytesToPoint demo (pi_R pp) = Inr RPoint \<and>
        bytesToPoint demo (pi_O_k pp) = Inr O_kPoint \<and>
        bytesToBigIntLittleEndian demo (pi_s pp) = Inr s \<and>
        bytesToBigIntLittleEndian demo (pi_s_b pp) = Inr s_b \<and>
        generateChallenge demo (pi_Y_bar pp) I demo_gamma (pi_R pp) (pi_O_k pp) demo_aux
          = Inr c \<and>
        fromAffine demo (GENERATOR demo) = Inr G \<and>
        fromAffine demo (BLINDING_BASE demo) = Inr B \<and>
        theta0_holds demo O_kPoint c GammaPoint IPoint s \<and>
        theta1_holds demo RPoint c Y_barPoint s G s_b B)"
proof -
  have accepted:
    "fst (verify demo demo_input demo_gamma demo_proof_aux (Some demo_aux) []) = Inr True"
    by code_simp
  have omitted: "fst (verify demo demo_input demo_gamma demo_proof_aux None []) = Inr False"
    by code_simp
  have other: "fst (verify demo demo_input demo_gamma demo_proof (Some demo_aux) []) = Inr False"
    by code_simp
  from accepted omitted other
    verify_accepts_iff_challenge_theta0_theta1
      [of demo demo_input demo_gamma demo_proof_aux "Some demo_aux" "[]"]
  show ?thesis
    by simp
qed

subsection \<open>Errors\<close>

text \<open>
  C4. A proof whose length is not 160 makes \<^verbatim>\<open>verify\<close> throw the size error, whatever
  the imported functions would do and with the console untouched; on a proof of 160
  bytes \<^verbatim>\<open>verify\<close> does not throw the size error.
\<close>

theorem verify_proof_size:
  "(length proofBytes \<noteq> 160 \<longrightarrow>
      verify env input gamma proofBytes auxData con =
        (Inl (InvalidProofSize (length proofBytes)), con)) \<and>
   (length proofBytes = 160 \<longrightarrow>
      (\<forall>n. fst (verify env input gamma proofBytes auxData con) \<noteq> Inl (InvalidProofSize n)))"
proof (intro conjI impI allI)
  assume "length proofBytes \<noteq> 160"
  then show "verify env input gamma proofBytes auxData con =
               (Inl (InvalidProofSize (length proofBytes)), con)"
    by (simp add: verify_def)
next
  fix n
  assume "length proofBytes = 160"
  then show "fst (verify env input gamma proofBytes auxData con) \<noteq> Inl (InvalidProofSize n)"
    by (simp add: fst_verify split: sum.splits)
qed

theorem verify_proof_size_witness:
  "length (take 159 demo_proof) \<noteq> 160 \<and>
   verify demo demo_input demo_gamma (take 159 demo_proof) None [] =
     (Inl (InvalidProofSize 159), []) \<and>
   length demo_proof = 160 \<and>
   (\<forall>n. fst (verify demo demo_input demo_gamma demo_proof None []) \<noteq> Inl (InvalidProofSize n))"
proof -
  have long: "length demo_proof = 160"
    by (simp add: demo_proof_def)
  have short: "length (take 159 demo_proof) = 159"
    by (simp add: demo_proof_def)
  from short long
    verify_proof_size [of "take 159 demo_proof" demo demo_input demo_gamma None "[]"]
    verify_proof_size [of demo_proof demo demo_input demo_gamma None "[]"]
  show ?thesis
    by simp
qed

text \<open>
  C5, as stated, fails: a point that the decoder refuses does not surface as an error.
  Here \<open>gamma\<close> encodes 13, which the instance's decoder refuses, and \<^verbatim>\<open>verify\<close>
  returns \<^verbatim>\<open>false\<close>.
\<close>

theorem verify_undecodable_point_counterexample:
  "bytesToPoint demo (le_of_int 32 13) = Inl ''invalid point encoding'' \<and>
   fst (verify demo demo_input (le_of_int 32 13) demo_proof None []) = Inr False"
  by code_simp

text \<open>
  C5, amended. \<^verbatim>\<open>bytesToPoint\<close> is called inside the \<^verbatim>\<open>try\<close> block of
  \<^verbatim>\<open>verifyProof\<close>, whose \<^verbatim>\<open>catch\<close> returns \<^verbatim>\<open>false\<close>: on a proof of 160 bytes
  that deserialises, with an input that hashes, a point among \<open>I\<close>, \<open>gamma\<close>,
  \<open>Y_bar\<close>, \<open>R\<close>, \<open>O_k\<close> that the decoder refuses makes \<^verbatim>\<open>verify\<close> return
  \<^verbatim>\<open>false\<close>. What \<^verbatim>\<open>verify\<close> throws is its size error, or the exception of
  \<^verbatim>\<open>deserialize\<close> or of \<^verbatim>\<open>hashToCurve\<close>, and nothing else.
\<close>

theorem verify_undecodable_point_is_false:
  "(length proofBytes = 160 \<and> deserialize env proofBytes = Inr pp \<and>
    hashToCurve env input = Inr I \<and>
    pt \<in> {I, gamma, pi_Y_bar pp, pi_R pp, pi_O_k pp} \<and> bytesToPoint env pt = Inl e
      \<longrightarrow> fst (verify env input gamma proofBytes auxData con) = Inr False) \<and>
   (fst (verify env input gamma proofBytes auxData con) = Inl err \<longrightarrow>
      (length proofBytes \<noteq> 160 \<and> err = InvalidProofSize (length proofBytes)) \<or>
      (\<exists>e'. err = Thrown e' \<and>
         (deserialize env proofBytes = Inl e' \<or>
          (\<exists>pp'. deserialize env proofBytes = Inr pp' \<and> hashToCurve env input = Inl e'))))"
proof (intro conjI impI)
  assume a: "length proofBytes = 160 \<and> deserialize env proofBytes = Inr pp \<and>
    hashToCurve env input = Inr I \<and>
    pt \<in> {I, gamma, pi_Y_bar pp, pi_R pp, pi_O_k pp} \<and> bytesToPoint env pt = Inl e"
  have "\<exists>x. fst (verifyProof_try env I gamma pp auxData con) = Inl x"
  proof (cases "fst (verifyProof_try env I gamma pp auxData con)")
    case (Inl x)
    then show ?thesis by blast
  next
    case (Inr b)
    from verifyProof_try_returns [OF Inr] a show ?thesis
      by auto
  qed
  with a show "fst (verify env input gamma proofBytes auxData con) = Inr False"
    by (auto simp: fst_verify_160)
next
  assume "fst (verify env input gamma proofBytes auxData con) = Inl err"
  then show "(length proofBytes \<noteq> 160 \<and> err = InvalidProofSize (length proofBytes)) \<or>
      (\<exists>e'. err = Thrown e' \<and>
         (deserialize env proofBytes = Inl e' \<or>
          (\<exists>pp'. deserialize env proofBytes = Inr pp' \<and> hashToCurve env input = Inl e')))"
    by (auto simp: fst_verify verifyProof_never_throws split: if_splits sum.splits)
qed

theorem verify_undecodable_point_is_false_witness:
  "length demo_proof = 160 \<and> deserialize demo demo_proof = Inr (deserialize_spec demo_proof) \<and>
   hashToCurve demo demo_input = Inr (le_of_int 32 5) \<and>
   le_of_int 32 13 \<in> {le_of_int 32 5, le_of_int 32 13, pi_Y_bar (deserialize_spec demo_proof),
      pi_R (deserialize_spec demo_proof), pi_O_k (deserialize_spec demo_proof)} \<and>
   bytesToPoint demo (le_of_int 32 13) = Inl ''invalid point encoding'' \<and>
   fst (verify demo demo_input (le_of_int 32 13) demo_proof None []) = Inr False \<and>
   fst (verify demo demo_input demo_gamma (take 159 demo_proof) None []) =
     Inl (InvalidProofSize 159) \<and>
   length (take 159 demo_proof) \<noteq> 160"
proof -
  have long: "length demo_proof = 160"
    by (simp add: demo_proof_def)
  have short: "length (take 159 demo_proof) = 159"
    by (simp add: demo_proof_def)
  have d: "deserialize demo demo_proof = Inr (deserialize_spec demo_proof)"
    by (simp add: demo_def)
  have h: "hashToCurve demo demo_input = Inr (le_of_int 32 5)"
    by code_simp
  have b: "bytesToPoint demo (le_of_int 32 13) = Inl ''invalid point encoding''"
    by code_simp
  have t: "fst (verify demo demo_input demo_gamma (take 159 demo_proof) None []) =
     Inl (InvalidProofSize 159)"
    using short by (simp add: fst_verify)
  from long short d h b t
    verify_undecodable_point_is_false
      [of demo_proof demo "deserialize_spec demo_proof" demo_input "le_of_int 32 5"
          "le_of_int 32 13" "le_of_int 32 13" "''invalid point encoding''" None "[]"]
    verify_undecodable_point_is_false
      [of "take 159 demo_proof" demo _ demo_input _ _ demo_gamma _ None "[]"
          "InvalidProofSize 159"]
  show ?thesis
    by simp
qed

text \<open>
  C10. \<^verbatim>\<open>verifyProof\<close> always returns a boolean: whatever the \<^verbatim>\<open>try\<close> block
  throws, in decoding, in the challenge or in the curve arithmetic, the \<^verbatim>\<open>catch\<close>
  returns \<^verbatim>\<open>false\<close>, and a value the block returns is returned as it is.
\<close>

theorem verifyProof_total:
  "(\<exists>b. fst (verifyProof env I O' pp auxData con) = Inr b) \<and>
   fst (verifyProof env I O' pp auxData con) =
     (case fst (verifyProof_try env I O' pp auxData con) of
        Inl e \<Rightarrow> Inr False
      | Inr isValid \<Rightarrow> Inr isValid)"
proof
  show "\<exists>b. fst (verifyProof env I O' pp auxData con) = Inr b"
    by (cases "fst (verifyProof env I O' pp auxData con)")
      (simp_all add: verifyProof_never_throws)
  show "fst (verifyProof env I O' pp auxData con) =
     (case fst (verifyProof_try env I O' pp auxData con) of
        Inl e \<Rightarrow> Inr False
      | Inr isValid \<Rightarrow> Inr isValid)"
    by (rule fst_verifyProof)
qed

subsection \<open>Scalars and points\<close>





subsection \<open>Outcome, console and the default of \<^verbatim>\<open>auxData\<close>\<close>

text \<open>
  C8, as stated, fails: the boolean is not the only outcome of a call. On a proof of
  159 bytes \<^verbatim>\<open>verify\<close> returns no boolean but throws, and on the accepted proof it
  writes two entries to the console.
\<close>

theorem verify_single_boolean_counterexample:
  "fst (verify demo demo_input demo_gamma (take 159 demo_proof) None []) =
     Inl (InvalidProofSize 159) \<and>
   verify demo demo_input demo_gamma demo_proof None [] =
     (Inr True,
      [ConsoleDebug ''Pedersen VRF verification details'' (VerificationDetails True True True 7),
       ConsoleDebug ''Pedersen VRF proof verified successfully'' NoDetails])"
  by code_simp

text \<open>
  C8, amended. \<^verbatim>\<open>verify\<close> is a function of its arguments: two calls with the same
  \<open>input\<close>, \<open>gamma\<close>, \<open>proof\<close> and \<open>auxData\<close> have the same outcome, a boolean or a
  thrown error, whatever the console holds when they start. Besides its outcome a call
  only appends to the console, the same entries in both calls: none when it throws,
  and when it returns a boolean the entry of \<^verbatim>\<open>verifyProof\<close> followed by the entry of
  the verdict.
\<close>

theorem verify_outcome_and_console:
  "fst (verify env input gamma proofBytes auxData con1) =
     fst (verify env input gamma proofBytes auxData con2) \<and>
   (\<exists>entries.
      snd (verify env input gamma proofBytes auxData con1) = con1 @ entries \<and>
      snd (verify env input gamma proofBytes auxData con2) = con2 @ entries \<and>
      (case fst (verify env input gamma proofBytes auxData con1) of
         Inl err \<Rightarrow> entries = []
       | Inr isValid \<Rightarrow>
           (\<exists>d. entries =
                  [d,
                   if isValid
                   then ConsoleDebug ''Pedersen VRF proof verified successfully'' NoDetails
                   else ConsoleError ''Pedersen VRF proof verification failed'' NoDetails] \<and>
                (case d of
                   ConsoleDebug m x \<Rightarrow> m = ''Pedersen VRF verification details''
                 | ConsoleError m x \<Rightarrow>
                     m = ''Pedersen VRF proof verification with provided gamma failed''))))"
proof -
  let ?r = "fst (verify env input gamma proofBytes auxData [])"
  let ?es = "snd (verify env input gamma proofBytes auxData [])"
  have v: "verify env input gamma proofBytes auxData c = (?r, c @ ?es)" for c
    by (rule verify_console)
  have shape:
    "(case ?r of
         Inl err \<Rightarrow> ?es = []
       | Inr isValid \<Rightarrow>
           (\<exists>d. ?es =
                  [d,
                   if isValid
                   then ConsoleDebug ''Pedersen VRF proof verified successfully'' NoDetails
                   else ConsoleError ''Pedersen VRF proof verification failed'' NoDetails] \<and>
                (case d of
                   ConsoleDebug m x \<Rightarrow> m = ''Pedersen VRF verification details''
                 | ConsoleError m x \<Rightarrow>
                     m = ''Pedersen VRF proof verification with provided gamma failed'')))"
  proof (cases "length proofBytes = 160")
    case False
    then show ?thesis by (simp add: verify_def)
  next
    case len: True
    show ?thesis
    proof (cases "deserialize env proofBytes")
      case (Inl e)
      with len show ?thesis by (simp add: verify_def)
    next
      case des: (Inr pp)
      show ?thesis
      proof (cases "hashToCurve env input")
        case (Inl e)
        with len des show ?thesis by (simp add: verify_def)
      next
        case hash: (Inr I)
        obtain r es where vp: "verifyProof env I gamma pp auxData [] = (r, es)"
          by (cases "verifyProof env I gamma pp auxData []")
        from verifyProof_never_throws [of env I gamma pp auxData "[]"] vp
        obtain b where r: "r = Inr b"
          by (cases r) auto
        from snd_verifyProof [of env I gamma pp auxData] vp obtain d where
          es: "es = [d]" and
          d: "(case d of
                ConsoleDebug m x \<Rightarrow> m = ''Pedersen VRF verification details''
              | ConsoleError m x \<Rightarrow>
                  m = ''Pedersen VRF proof verification with provided gamma failed'')"
          by auto
        from len des hash vp r es d show ?thesis
          by (simp add: verify_def)
      qed
    qed
  qed
  show ?thesis
    unfolding v [of con1] v [of con2] fst_conv snd_conv
    using shape by blast
qed

text \<open>
  C9. Omitting \<^verbatim>\<open>auxData\<close> is the same as passing the empty array: result and
  console entries are equal.
\<close>

theorem verify_auxData_default:
  "verify env input gamma proofBytes None con = verify env input gamma proofBytes (Some []) con"
proof -
  have t: "verifyProof_try env I O' pp None c = verifyProof_try env I O' pp (Some []) c"
    for I O' pp c
    by (simp add: verifyProof_try_def orEmpty_def)
  have p: "verifyProof env I O' pp None c = verifyProof env I O' pp (Some []) c"
    for I O' pp c
    by (simp add: verifyProof_def t)
  show ?thesis
    unfolding verify_def p ..
qed

end
